theory Spec2Isabelle
  imports Main "HOL-Library.Sublist"
begin

section \<open>The peer connection of pyethereum (peer.py)\<close>

text \<open>
  A shallow embedding of the class \<open>Peer\<close> of \<open>src/pyethereum/peer.py\<close>. The object is a
  record that every method takes and returns. What a method does to the world outside the
  object (the queue, the signals, the logger, the socket, \<open>time.sleep\<close>) is appended to
  the field \<open>trace\<close>, in the order the source performs it. Python 2 strings are byte
  strings, so they are \<open>string\<close> here (a \<open>char\<close> is one byte). Method names lose their
  leading underscore: \<open>_recv_Hello\<close> is \<open>recv_Hello\<close>.
\<close>

subsection \<open>Values\<close>

text \<open>A decoded payload item: a byte string or a list of items.\<close>

datatype rlp = Str string | Lst "rlp list"

text \<open>The exceptions the methods of the class can raise.\<close>

datatype error = IOError | IndexError | KeyError | AssertionError | ValueError | TypeError

datatype level = Debug | Info | Warn

text \<open>The messages handed to \<open>logger\<close>, one constructor per call site.\<close>

datatype log_msg =
    ShuttingDownFailed
  | SendPacketFailed
  | DecodeFailed
  | UnknownCmd string
  | SentDisconnect string
  | ReceivedPeerAddress string int
  | AskingForTransactions
  | ReceivedTransactions nat

text \<open>The signals of the module \<open>signals\<close> that the class sends.\<close>

datatype signal =
    Packet_sending string
  | Packet_sent string
  | Disconnect_requested
  | New_peer_received string int rlp
  | New_transactions_received "rlp list"
  | New_blocks_received "rlp list"

datatype effect =
    QueuePut string
  | QueueGet
  | Signal signal
  | RequestDataAsync string "rlp list option" string
  | Log level log_msg
  | Sleep nat
  | SockSend string
  | SockRecv nat
  | SockShutdown
  | SockClose

subsection \<open>The socket\<close>

text \<open>
  The socket is the environment. Its answers to \<open>send\<close> and \<open>recv\<close> are scripts, read one
  entry per call; a call on an exhausted script has no known answer (\<open>None\<close>), which also
  stands for a loop that the socket never lets end. A closed socket raises on every call.
\<close>

datatype send_outcome = SendRaises | SendAccepts nat

datatype recv_outcome = RecvRaises | RecvChunk string

record socket =
  send_script :: "send_outcome list"
  recv_script :: "recv_outcome list"
  shutdown_raises :: bool
  closed :: bool

definition sock_send :: "socket \<Rightarrow> string \<Rightarrow> ((error + nat) \<times> socket) option" where
  "sock_send c packet =
     (if closed c then Some (Inl IOError, c)
      else case send_script c of
          [] \<Rightarrow> None
        | SendRaises # r \<Rightarrow> Some (Inl IOError, c\<lparr>send_script := r\<rparr>)
        | SendAccepts n # r \<Rightarrow> Some (Inr n, c\<lparr>send_script := r\<rparr>))"

definition sock_recv :: "socket \<Rightarrow> nat \<Rightarrow> ((error + string) \<times> socket) option" where
  "sock_recv c bufsize =
     (if closed c then Some (Inl IOError, c)
      else case recv_script c of
          [] \<Rightarrow> None
        | RecvRaises # r \<Rightarrow> Some (Inl IOError, c\<lparr>recv_script := r\<rparr>)
        | RecvChunk chunk # r \<Rightarrow> Some (Inr (take bufsize chunk), c\<lparr>recv_script := r\<rparr>))"

definition sock_shutdown :: "socket \<Rightarrow> (error + unit) \<times> socket" where
  "sock_shutdown c =
     (if closed c \<or> shutdown_raises c then (Inl IOError, c) else (Inr (), c))"

definition sock_close :: "socket \<Rightarrow> socket" where
  "sock_close c = c\<lparr>closed := True\<rparr>"

subsection \<open>The imported names\<close>

text \<open>
  Modelled from the spec: the codec object \<open>packeter\<close> and \<open>utils.big_endian_to_int\<close>
  (imported as \<open>idec\<close>) are not part of the source file. The spec gives the codec's
  contract only (encode: command and arguments to bytes; decode: bytes to command and
  arguments, or a framing error), so they are parameters of every method here.
  \<open>load_cmd\<close> answers \<open>None\<close> where the codec raises. \<open>dump_Disconnect\<close> takes the reason
  it is called with; the source calls it with none.
\<close>

record env =
  PROTOCOL_VERSION :: int
  NETWORK_ID :: int
  load_cmd :: "rlp \<Rightarrow> (string \<times> rlp list) option"
  dump_Hello :: string
  dump_Disconnect :: "string option \<Rightarrow> string"
  dump_Pong :: string
  dump_GetTransactions :: string
  disconnect_reasons_map_by_id :: "int \<Rightarrow> string option"
  idec :: "rlp \<Rightarrow> error + int"

text \<open>
  Modelled from the spec: \<open>utils.big_endian_to_int\<close>, the big-endian integer decoding of
  a byte string (the empty string is 0). Used where a claim names concrete bytes.
\<close>

definition big_endian_to_int :: "rlp \<Rightarrow> error + int" where
  "big_endian_to_int x =
     (case x of
        Str bs \<Rightarrow> Inr (foldl (\<lambda>acc b. acc * 256 + int (of_char b)) 0 bs)
      | Lst _ \<Rightarrow> Inl TypeError)"

subsection \<open>The object\<close>

record peer =
  the_connection :: socket
  ip :: string
  port :: "nat option"
  node_id :: rlp
  response_queue :: "string list"
  hello_received :: bool
  hello_sent :: bool
  last_valid_packet_received :: nat
  last_asked_for_peers :: nat
  last_pinged :: nat
  is_stopped :: bool
  clock :: nat
  trace :: "effect list"

type_synonym 'a result = "(error + 'a) \<times> peer"

text \<open>
  \<open>__init__\<close>: the field \<open>is_stopped\<close> is the flag of the base class
  \<open>StoppableLoopThread\<close>; \<open>clock\<close> is what \<open>time.time()\<close> reads, in milliseconds.
\<close>

definition fresh_peer :: "socket \<Rightarrow> string \<Rightarrow> nat option \<Rightarrow> nat \<Rightarrow> peer" where
  "fresh_peer c i p now =
     \<lparr> the_connection = c, ip = i, port = p, node_id = Str [],
       response_queue = [], hello_received = False, hello_sent = False,
       last_valid_packet_received = now, last_asked_for_peers = 0, last_pinged = 0,
       is_stopped = False, clock = now, trace = [] \<rparr>"

definition Peer_init :: "socket \<Rightarrow> string \<Rightarrow> nat option \<Rightarrow> nat \<Rightarrow> error + peer" where
  "Peer_init c i p now =
     (if count_list i (CHR ''.'') = 3 then Inr (fresh_peer c i p now)
      else Inl AssertionError)"

definition emit :: "effect \<Rightarrow> peer \<Rightarrow> peer" where
  "emit e s = s\<lparr>trace := trace s @ [e]\<rparr>"

definition time_sleep :: "nat \<Rightarrow> peer \<Rightarrow> peer" where
  "time_sleep ms s = emit (Sleep ms) (s\<lparr>clock := clock s + ms\<rparr>)"

text \<open>
  Modelled from the spec: \<open>stopped()\<close> of the base class reads the lifecycle flag, and the
  base class's \<open>stop()\<close> sets it (a one-way transition from false to true).
\<close>

definition stopped :: "peer \<Rightarrow> bool" where
  "stopped s = is_stopped s"

definition connection :: "peer \<Rightarrow> error + socket" where
  "connection s = (if stopped s then Inl IOError else Inr (the_connection s))"

definition stop :: "peer \<Rightarrow> peer" where
  "stop s =
     (let s1 = s\<lparr>is_stopped := True\<rparr>;
          s2 = emit SockShutdown s1;
          s3 = (case sock_shutdown (the_connection s2) of
                  (Inl e, c) \<Rightarrow> emit (Log Debug ShuttingDownFailed) (s2\<lparr>the_connection := c\<rparr>)
                | (Inr u, c) \<Rightarrow> s2\<lparr>the_connection := c\<rparr>)
      in emit SockClose (s3\<lparr>the_connection := sock_close (the_connection s3)\<rparr>))"

definition send_packet :: "string \<Rightarrow> peer \<Rightarrow> peer" where
  "send_packet response s =
     emit (QueuePut response) (s\<lparr>response_queue := response_queue s @ [response]\<rparr>)"

subsection \<open>The send step\<close>

text \<open>
  One pass of \<open>while packet:\<close>. The write goes through \<open>connection()\<close>, so a stopped peer
  raises before the socket is reached. Both failures take the \<open>except IOError\<close> branch.
\<close>

function send_loop :: "string \<Rightarrow> peer \<Rightarrow> (string \<times> peer) option" where
  "send_loop packet s =
     (if packet = [] then Some (packet, s)
      else
        let s1 = emit (Signal (Packet_sending packet)) s in
        case connection s1 of
          Inl e \<Rightarrow> Some (packet, stop (emit (Log Debug SendPacketFailed) s1))
        | Inr c \<Rightarrow>
            (case sock_send c packet of
               None \<Rightarrow> None
             | Some (Inl e, c') \<Rightarrow>
                 Some (packet,
                   stop (emit (Log Debug SendPacketFailed)
                     (emit (SockSend packet) (s1\<lparr>the_connection := c'\<rparr>))))
             | Some (Inr n, c') \<Rightarrow>
                 send_loop (drop n packet)
                   (emit (Signal (Packet_sent (drop n packet)))
                     (emit (SockSend packet) (s1\<lparr>the_connection := c'\<rparr>)))))"
  by pat_completeness auto
termination
  by (relation "measure (\<lambda>(packet, s). length (send_script (the_connection s)))")
     (auto simp: emit_def connection_def sock_send_def
           split: if_splits list.splits send_outcome.splits)

declare send_loop.simps [simp del]

definition process_send :: "peer \<Rightarrow> (nat \<times> peer) option" where
  "process_send s =
     (let (packet, s1) =
            (case response_queue s of
               [] \<Rightarrow> ([], emit QueueGet s)
             | p # q \<Rightarrow> (p, emit QueueGet (s\<lparr>response_queue := q\<rparr>)))
      in case send_loop packet s1 of
           None \<Rightarrow> None
         | Some (rest, s2) \<Rightarrow> Some (if rest \<noteq> [] then length rest else 0, s2))"

subsection \<open>The receive step\<close>

text \<open>
  The \<open>try\<close> of one pass of \<open>while True:\<close>, a read of at most 2048 bytes through
  \<open>connection()\<close>. An \<open>IOError\<close>, from the accessor or from the socket, is read as the
  empty chunk.
\<close>

definition try_recv :: "peer \<Rightarrow> (string \<times> peer) option" where
  "try_recv s =
     (case connection s of
        Inl e \<Rightarrow> Some ([], s)
      | Inr c \<Rightarrow>
          (case sock_recv c 2048 of
             None \<Rightarrow> None
           | Some (Inl e, c') \<Rightarrow> Some ([], emit (SockRecv 2048) (s\<lparr>the_connection := c'\<rparr>))
           | Some (Inr chunk, c') \<Rightarrow>
               Some (chunk, emit (SockRecv 2048) (s\<lparr>the_connection := c'\<rparr>))))"

function recv_loop :: "string \<Rightarrow> peer \<Rightarrow> (string \<times> peer) option" where
  "recv_loop packet s =
     (case try_recv s of
        None \<Rightarrow> None
      | Some (chunk, s1) \<Rightarrow>
          if chunk = [] then Some (packet, s1) else recv_loop (packet @ chunk) s1)"
  by pat_completeness auto
termination
  by (relation "measure (\<lambda>(packet, s). length (recv_script (the_connection s)))")
     (auto simp: try_recv_def emit_def connection_def sock_recv_def
           split: if_splits list.splits recv_outcome.splits)

declare recv_loop.simps [simp del]

subsection \<open>Senders and handlers\<close>

definition send_Hello :: "env \<Rightarrow> peer \<Rightarrow> peer" where
  "send_Hello E s = (send_packet (dump_Hello E) s)\<lparr>hello_sent := True\<rparr>"

text \<open>The parameter \<open>reason\<close> is not used by the body: the packet is \<open>dump_Disconnect()\<close>.\<close>

definition send_Disconnect :: "env \<Rightarrow> string option \<Rightarrow> peer \<Rightarrow> peer" where
  "send_Disconnect E reason s =
     emit (Signal Disconnect_requested)
       (time_sleep 2000 (send_packet (dump_Disconnect E None) s))"

definition send_Pong :: "env \<Rightarrow> peer \<Rightarrow> peer" where
  "send_Pong E s = send_packet (dump_Pong E) s"

definition send_GetTransactions :: "env \<Rightarrow> peer \<Rightarrow> peer" where
  "send_GetTransactions E s =
     send_packet (dump_GetTransactions E) (emit (Log Info AskingForTransactions) s)"

text \<open>\<open>data[i]\<close>: an index past the end raises.\<close>

definition getitem :: "'a list \<Rightarrow> nat \<Rightarrow> error + 'a" where
  "getitem xs i = (if i < length xs then Inr (xs ! i) else Inl IndexError)"

definition recv_Hello :: "env \<Rightarrow> rlp list \<Rightarrow> peer \<Rightarrow> unit result" where
  "recv_Hello E data s =
     (case getitem data 0 of
        Inl e \<Rightarrow> (Inl e, s)
      | Inr d0 \<Rightarrow>
     (case idec E d0 of
        Inl e \<Rightarrow> (Inl e, s)
      | Inr v \<Rightarrow>
     if v \<noteq> PROTOCOL_VERSION E
     then (Inr (), send_Disconnect E (Some ''Incompatible network protocols'') s)
     else
     (case getitem data 1 of
        Inl e \<Rightarrow> (Inl e, s)
      | Inr d1 \<Rightarrow>
     (case idec E d1 of
        Inl e \<Rightarrow> (Inl e, s)
      | Inr n \<Rightarrow>
     if n \<noteq> NETWORK_ID E
     then (Inr (), send_Disconnect E (Some ''Wrong genesis block'') s)
     else
       let s1 = s\<lparr>hello_received := True\<rparr>;
           s2 = (if length data = 6 then s1\<lparr>node_id := data ! 5\<rparr> else s1)
       in (Inr (), if \<not> hello_sent s2 then send_Hello E s2 else s2)))))"

definition recv_Ping :: "env \<Rightarrow> rlp list \<Rightarrow> peer \<Rightarrow> unit result" where
  "recv_Ping E data s = (Inr (), send_Pong E s)"

definition recv_Pong :: "env \<Rightarrow> rlp list \<Rightarrow> peer \<Rightarrow> unit result" where
  "recv_Pong E data s = (Inr (), send_GetTransactions E s)"

definition recv_Disconnect :: "env \<Rightarrow> rlp list \<Rightarrow> peer \<Rightarrow> unit result" where
  "recv_Disconnect E data s =
     (if data \<noteq> [] then
        (case idec E (data ! 0) of
           Inl e \<Rightarrow> (Inl e, s)
         | Inr i \<Rightarrow>
             (case disconnect_reasons_map_by_id E i of
                None \<Rightarrow> (Inl KeyError, s)
              | Some reason \<Rightarrow>
                  (Inr (), emit (Signal Disconnect_requested)
                             (emit (Log Info (SentDisconnect reason)) s))))
      else (Inr (), emit (Signal Disconnect_requested) s))"

definition recv_GetPeers :: "env \<Rightarrow> rlp list \<Rightarrow> peer \<Rightarrow> unit result" where
  "recv_GetPeers E data s =
     (Inr (), emit (RequestDataAsync ''peers'' (Some data) ''send_Peers'') s)"

text \<open>
  \<open>for ip, port, pid in data\<close>: an entry unpacks into three names when it is a list of
  three items, or a string of three bytes (each name is then a one-byte string); any
  other entry raises \<open>ValueError\<close>.
\<close>

definition unpack3 :: "rlp \<Rightarrow> error + (rlp \<times> rlp \<times> rlp)" where
  "unpack3 entry =
     (case entry of
        Lst [a, b, c] \<Rightarrow> Inr (a, b, c)
      | Str [a, b, c] \<Rightarrow> Inr (Str [a], Str [b], Str [c])
      | _ \<Rightarrow> Inl ValueError)"

text \<open>\<open>ord(b or '\x00')\<close>: an empty string or list counts as the zero byte.\<close>

definition ord_or_zero :: "rlp \<Rightarrow> error + nat" where
  "ord_or_zero b =
     (case b of
        Str [] \<Rightarrow> Inr 0
      | Lst [] \<Rightarrow> Inr 0
      | Str [c] \<Rightarrow> Inr (of_char c)
      | _ \<Rightarrow> Inl TypeError)"

text \<open>\<open>str\<close> of a non-negative integer: its decimal digits.\<close>

definition digit :: "nat \<Rightarrow> char" where
  "digit d = char_of (48 + d)"

function str_nat :: "nat \<Rightarrow> string" where
  "str_nat n = (if n < 10 then [digit n] else str_nat (n div 10) @ [digit (n mod 10)])"
  by pat_completeness auto
termination
  by (relation "measure id") auto

declare str_nat.simps [simp del]

fun join :: "string \<Rightarrow> string list \<Rightarrow> string" where
  "join sep [] = []"
| "join sep [x] = x"
| "join sep (x # y # xs) = x @ sep @ join sep (y # xs)"

text \<open>The generator inside \<open>'.'.join(...)\<close>: the first byte that has no \<open>ord\<close> raises.\<close>

fun ip_parts :: "rlp list \<Rightarrow> error + string list" where
  "ip_parts [] = Inr []"
| "ip_parts (b # bs) =
     (case ord_or_zero b of
        Inl e \<Rightarrow> Inl e
      | Inr n \<Rightarrow> (case ip_parts bs of Inl e \<Rightarrow> Inl e | Inr ps \<Rightarrow> Inr (str_nat n # ps)))"

fun recv_Peers :: "env \<Rightarrow> rlp list \<Rightarrow> peer \<Rightarrow> unit result" where
  "recv_Peers E [] s = (Inr (), s)"
| "recv_Peers E (entry # rest) s =
     (case unpack3 entry of
        Inl e \<Rightarrow> (Inl e, s)
      | Inr (ip0, port0, pid) \<Rightarrow>
     (case ip0 of
        Str _ \<Rightarrow> (Inl AssertionError, s)
      | Lst bs \<Rightarrow>
     (case ip_parts bs of
        Inl e \<Rightarrow> (Inl e, s)
      | Inr ps \<Rightarrow>
     (case idec E port0 of
        Inl e \<Rightarrow> (Inl e, s)
      | Inr p \<Rightarrow>
          recv_Peers E rest
            (emit (Signal (New_peer_received (join ''.'' ps) p pid))
               (emit (Log Debug (ReceivedPeerAddress (join ''.'' ps) p)) s))))))"

definition recv_GetTransactions :: "env \<Rightarrow> rlp list \<Rightarrow> peer \<Rightarrow> unit result" where
  "recv_GetTransactions E data s =
     (Inr (), emit (RequestDataAsync ''transactions'' None ''send_Transactions'')
                (emit (Log Info AskingForTransactions) s))"

definition recv_Transactions :: "env \<Rightarrow> rlp list \<Rightarrow> peer \<Rightarrow> unit result" where
  "recv_Transactions E data s =
     (Inr (), emit (Signal (New_transactions_received data))
                (emit (Log Info (ReceivedTransactions (length data))) s))"

definition recv_Blocks :: "env \<Rightarrow> rlp list \<Rightarrow> peer \<Rightarrow> unit result" where
  "recv_Blocks E data s = (Inr (), emit (Signal (New_blocks_received data)) s)"

definition recv_GetChain :: "env \<Rightarrow> rlp list \<Rightarrow> peer \<Rightarrow> unit result" where
  "recv_GetChain E request_data s =
     (Inr (), emit (RequestDataAsync ''blocks'' (Some request_data) ''send_Blocks'') s)"

definition recv_NotInChain :: "env \<Rightarrow> rlp list \<Rightarrow> peer \<Rightarrow> unit result" where
  "recv_NotInChain E data s = (Inr (), s)"

subsection \<open>Dispatch\<close>

text \<open>
  \<open>hasattr(self, "_recv_" + cmd)\<close> and \<open>getattr\<close>: the methods of the class whose name
  starts with \<open>_recv_\<close>. \<open>_recv_packet\<close> is one of them too; it is the recursive case of
  \<open>recv_packet\<close> below.
\<close>

definition recv_handler :: "string \<Rightarrow> (env \<Rightarrow> rlp list \<Rightarrow> peer \<Rightarrow> unit result) option" where
  "recv_handler cmd =
     (if cmd = ''Hello'' then Some recv_Hello
      else if cmd = ''Ping'' then Some recv_Ping
      else if cmd = ''Pong'' then Some recv_Pong
      else if cmd = ''Disconnect'' then Some recv_Disconnect
      else if cmd = ''GetPeers'' then Some recv_GetPeers
      else if cmd = ''Peers'' then Some recv_Peers
      else if cmd = ''GetTransactions'' then Some recv_GetTransactions
      else if cmd = ''Transactions'' then Some recv_Transactions
      else if cmd = ''Blocks'' then Some recv_Blocks
      else if cmd = ''GetChain'' then Some recv_GetChain
      else if cmd = ''NotInChain'' then Some recv_NotInChain
      else None)"

partial_function (option) recv_packet :: "env \<Rightarrow> rlp \<Rightarrow> peer \<Rightarrow> unit result option" where
  "recv_packet E packet s =
     (case load_cmd E packet of
        None \<Rightarrow>
          Some (Inr (), send_Disconnect E (Some ''Bad protocol'') (emit (Log Warn DecodeFailed) s))
      | Some (cmd, data) \<Rightarrow>
          if cmd = ''packet''
          then recv_packet E (Lst data) (s\<lparr>last_valid_packet_received := clock s\<rparr>)
          else
            (case recv_handler cmd of
               None \<Rightarrow>
                 Some (Inr (), emit (Log Warn (UnknownCmd (''_recv_'' @ cmd)))
                                 (s\<lparr>last_valid_packet_received := clock s\<rparr>))
             | Some handler \<Rightarrow>
                 Some (handler E data (s\<lparr>last_valid_packet_received := clock s\<rparr>))))"

declare recv_packet.simps [code]

definition process_recv :: "env \<Rightarrow> peer \<Rightarrow> nat result option" where
  "process_recv E s =
     (case recv_loop [] s of
        None \<Rightarrow> None
      | Some (packet, s1) \<Rightarrow>
          if packet \<noteq> [] then
            (case recv_packet E (Str packet) s1 of
               None \<Rightarrow> None
             | Some (Inl e, s2) \<Rightarrow> Some (Inl e, s2)
             | Some (Inr u, s2) \<Rightarrow> Some (Inr (length packet), s2))
          else Some (Inr (length packet), s1))"

definition loop_body :: "env \<Rightarrow> peer \<Rightarrow> unit result option" where
  "loop_body E s =
     (case process_send s of
        None \<Rightarrow> None
      | Some (send_size, s1) \<Rightarrow>
          (case process_recv E s1 of
             None \<Rightarrow> None
           | Some (Inl e, s2) \<Rightarrow> Some (Inl e, s2)
           | Some (Inr recv_size, s2) \<Rightarrow>
               Some (Inr (), if \<not> (0 < send_size \<or> 0 < recv_size) then time_sleep 100 s2
                             else s2)))"

subsection \<open>A sample environment\<close>

text \<open>
  Concrete inputs for the closed theorems below: a toy codec whose packets are a command
  byte followed by one-byte fields (after \<open>Q\<close>, a Peers payload of one entry that is the
  rest of the packet as a string), an idle socket, and a freshly constructed peer.
\<close>

definition sample_load_cmd :: "rlp \<Rightarrow> (string \<times> rlp list) option" where
  "sample_load_cmd packet =
     (case packet of
        Str (c # bs) \<Rightarrow>
          (if c = CHR ''H'' then Some (''Hello'', map (\<lambda>b. Str [b]) bs)
           else if c = CHR ''P'' then Some (''Peers'', map (\<lambda>b. Str [b]) bs)
           else if c = CHR ''Q'' then Some (''Peers'', [Str bs])
           else if c = CHR ''T'' then Some (''Transactions'', map (\<lambda>b. Str [b]) bs)
           else if c = CHR ''?'' then Some (''Status'', map (\<lambda>b. Str [b]) bs)
           else None)
      | _ \<Rightarrow> None)"

definition sample_env :: env where
  "sample_env =
     \<lparr> PROTOCOL_VERSION = 7, NETWORK_ID = 0, load_cmd = sample_load_cmd,
       dump_Hello = ''<Hello>'',
       dump_Disconnect =
         (\<lambda>r. case r of None \<Rightarrow> ''<Disconnect>'' | Some x \<Rightarrow> ''<Disconnect '' @ x @ ''>''),
       dump_Pong = ''<Pong>'', dump_GetTransactions = ''<GetTransactions>'',
       disconnect_reasons_map_by_id = [0 \<mapsto> ''Disconnect requested'', 1 \<mapsto> ''Bad protocol''],
       idec = big_endian_to_int \<rparr>"

definition sample_socket :: socket where
  "sample_socket =
     \<lparr> send_script = [], recv_script = [], shutdown_raises = False, closed = False \<rparr>"

definition sample_peer :: peer where
  "sample_peer = fresh_peer sample_socket ''127.0.0.1'' (Some 30303) 0"

definition sample_sender :: "send_outcome list \<Rightarrow> string list \<Rightarrow> peer" where
  "sample_sender script queue =
     sample_peer\<lparr>response_queue := queue,
                 the_connection := sample_socket\<lparr>send_script := script\<rparr>\<rparr>"

definition sample_receiver :: "recv_outcome list \<Rightarrow> peer" where
  "sample_receiver script =
     sample_peer\<lparr>the_connection := sample_socket\<lparr>recv_script := script\<rparr>\<rparr>"

text \<open>
  Two Hello payloads of six fields that pass both checks of \<open>sample_env\<close> and differ in
  the node identifier only.
\<close>

definition hello_A :: "rlp list" where
  "hello_A = [Str [CHR 0x07], Str [], Str ''c'', Str ''p'', Str ''x'', Str ''A'']"

definition hello_B :: "rlp list" where
  "hello_B = [Str [CHR 0x07], Str [], Str ''c'', Str ''p'', Str ''x'', Str ''B'']"

subsection \<open>The Peers payload, in the spec's words\<close>

text \<open>
  An entry is an ip (a list of byte items), a port and a node id. A byte item is a
  one-byte string, or an empty item, which counts as zero. The ip is rendered as the
  decimal values of its bytes with dots between them.
\<close>

definition ip_byte :: "rlp \<Rightarrow> bool" where
  "ip_byte b = (case b of Str [] \<Rightarrow> True | Str [c] \<Rightarrow> True | Lst [] \<Rightarrow> True | _ \<Rightarrow> False)"

definition byte_value :: "rlp \<Rightarrow> nat" where
  "byte_value b = (case b of Str [c] \<Rightarrow> of_char c | _ \<Rightarrow> 0)"

definition dotted :: "rlp list \<Rightarrow> string" where
  "dotted bs = join ''.'' (map (\<lambda>b. str_nat (byte_value b)) bs)"

text \<open>
  An entry \<open>(bs, port0, p, pid)\<close> names the ip items, the port item, the integer the port
  decodes to, and the node id: \<open>peers_entry\<close> is the payload item, \<open>peers_events\<close> the log
  line and the notification it is republished as.
\<close>

definition peers_entry :: "rlp list \<times> rlp \<times> int \<times> rlp \<Rightarrow> rlp" where
  "peers_entry x = (case x of (bs, port0, p, pid) \<Rightarrow> Lst [Lst bs, port0, pid])"

definition peers_events :: "rlp list \<times> rlp \<times> int \<times> rlp \<Rightarrow> effect list" where
  "peers_events x =
     (case x of (bs, port0, p, pid) \<Rightarrow>
        [Log Debug (ReceivedPeerAddress (dotted bs) p),
         Signal (New_peer_received (dotted bs) p pid)])"

subsection \<open>The effects of one step, in the spec's words\<close>


definition head_packet :: "peer \<Rightarrow> string" where
  "head_packet s = (case response_queue s of [] \<Rightarrow> [] | p # q \<Rightarrow> p)"


text \<open>The effects of \<open>stop()\<close>: shutdown, its failure logged if it raises, then close.\<close>

definition stop_effects :: "peer \<Rightarrow> effect list" where
  "stop_effects s =
     SockShutdown #
     (if closed (the_connection s) \<or> shutdown_raises (the_connection s)
      then [Log Debug ShuttingDownFailed] else []) @ [SockClose]"



text \<open>A write, or a read, that raises: through the accessor or on the socket.\<close>

definition write_fails :: "peer \<Rightarrow> string \<Rightarrow> bool" where
  "write_fails s packet =
     (case connection s of
        Inl e \<Rightarrow> True
      | Inr c \<Rightarrow> (case sock_send c packet of Some (Inl e, c') \<Rightarrow> True | _ \<Rightarrow> False))"

definition read_fails :: "peer \<Rightarrow> bool" where
  "read_fails s =
     (case connection s of
        Inl e \<Rightarrow> True
      | Inr c \<Rightarrow> (case sock_recv c 2048 of Some (Inl e, c') \<Rightarrow> True | _ \<Rightarrow> False))"

section \<open>Properties\<close>

subsection \<open>Evaluation rules\<close>

lemmas step_defs = send_packet_def emit_def time_sleep_def send_Hello_def send_Disconnect_def

lemma sample_env_simps:
  "PROTOCOL_VERSION sample_env = 7" "NETWORK_ID sample_env = 0"
  "load_cmd sample_env = sample_load_cmd" "dump_Hello sample_env = ''<Hello>''"
  "dump_Disconnect sample_env None = ''<Disconnect>''"
  "dump_Disconnect sample_env (Some x) = ''<Disconnect '' @ x @ ''>''"
  "dump_Pong sample_env = ''<Pong>''" "dump_GetTransactions sample_env = ''<GetTransactions>''"
  "idec sample_env = big_endian_to_int"
  by (simp_all add: sample_env_def)

lemma sample_peer_simps:
  "the_connection sample_peer = sample_socket" "node_id sample_peer = Str []"
  "response_queue sample_peer = []" "hello_received sample_peer = False"
  "hello_sent sample_peer = False" "is_stopped sample_peer = False"
  "clock sample_peer = 0" "trace sample_peer = []"
  by (simp_all add: sample_peer_def fresh_peer_def)

lemma big_endian_to_int_Str:
  "big_endian_to_int (Str bs) = Inr (foldl (\<lambda>acc b. acc * 256 + int (of_char b)) 0 bs)"
  by (simp add: big_endian_to_int_def)

subsection \<open>The handshake\<close>

text \<open>What \<open>recv_Hello\<close> computes once both checks pass.\<close>

lemma recv_Hello_accepted:
  assumes "2 \<le> length data"
    and "idec E (data ! 0) = Inr (PROTOCOL_VERSION E)"
    and "idec E (data ! 1) = Inr (NETWORK_ID E)"
  shows "recv_Hello E data s =
     (Inr (),
      let s1 = s\<lparr>hello_received := True\<rparr>;
          s2 = (if length data = 6 then s1\<lparr>node_id := data ! 5\<rparr> else s1)
      in if \<not> hello_sent s2 then send_Hello E s2 else s2)"
  using assms by (auto simp: recv_Hello_def getitem_def Let_def)

text \<open>
  C5. A Hello whose protocol version and network identifier both decode to the expected
  values returns normally and sets \<open>hello_received\<close>. If \<open>hello_sent\<close> was false, exactly
  one packet, \<open>dump_Hello()\<close>, is put on the queue and \<open>hello_sent\<close> becomes true; if it
  was true, nothing is put on the queue.
\<close>

theorem recv_Hello_valid:
  assumes "2 \<le> length data"
    and "idec E (data ! 0) = Inr (PROTOCOL_VERSION E)"
    and "idec E (data ! 1) = Inr (NETWORK_ID E)"
  shows "fst (recv_Hello E data s) = Inr ()
    \<and> hello_received (snd (recv_Hello E data s))
    \<and> hello_sent (snd (recv_Hello E data s))
    \<and> response_queue (snd (recv_Hello E data s)) =
        response_queue s @ (if hello_sent s then [] else [dump_Hello E])
    \<and> trace (snd (recv_Hello E data s)) =
        trace s @ (if hello_sent s then [] else [QueuePut (dump_Hello E)])"
  by (simp add: recv_Hello_accepted [OF assms] step_defs Let_def)

theorem recv_Hello_valid_witness:
  "hello_received (snd (recv_Hello sample_env [Str [CHR 0x07], Str []] sample_peer))
   \<and> hello_sent (snd (recv_Hello sample_env [Str [CHR 0x07], Str []] sample_peer))
   \<and> response_queue (snd (recv_Hello sample_env [Str [CHR 0x07], Str []] sample_peer))
       = [''<Hello>'']
   \<and> response_queue (snd (recv_Hello sample_env [Str [CHR 0x07], Str []]
         (sample_peer\<lparr>hello_sent := True\<rparr>))) = []"
proof -
  let ?d = "[Str [CHR 0x07], Str []]"
  have h1: "2 \<le> length ?d" by simp
  have h2: "idec sample_env (?d ! 0) = Inr (PROTOCOL_VERSION sample_env)"
    by (simp add: sample_env_simps big_endian_to_int_Str)
  have h3: "idec sample_env (?d ! 1) = Inr (NETWORK_ID sample_env)"
    by (simp add: sample_env_simps big_endian_to_int_Str)
  show ?thesis
    using recv_Hello_valid [OF h1 h2 h3, of sample_peer]
      recv_Hello_valid [OF h1 h2 h3, of "sample_peer\<lparr>hello_sent := True\<rparr>"]
    by (simp add: sample_env_simps sample_peer_simps)
qed

lemma hello_ok:
  "2 \<le> length hello_A" "idec sample_env (hello_A ! 0) = Inr (PROTOCOL_VERSION sample_env)"
  "idec sample_env (hello_A ! 1) = Inr (NETWORK_ID sample_env)"
  "2 \<le> length hello_B" "idec sample_env (hello_B ! 0) = Inr (PROTOCOL_VERSION sample_env)"
  "idec sample_env (hello_B ! 1) = Inr (NETWORK_ID sample_env)"
  by (simp_all add: hello_A_def hello_B_def sample_env_simps big_endian_to_int_Str)

lemma hello_fields:
  "length hello_A = 6" "hello_A ! 5 = Str ''A''" "length hello_B = 6" "hello_B ! 5 = Str ''B''"
  by (simp_all add: hello_A_def hello_B_def)

lemma node_id_after_Hello:
  assumes "2 \<le> length data"
    and "idec E (data ! 0) = Inr (PROTOCOL_VERSION E)"
    and "idec E (data ! 1) = Inr (NETWORK_ID E)"
  shows "node_id (snd (recv_Hello E data s)) = (if length data = 6 then data ! 5 else node_id s)"
  by (simp add: recv_Hello_accepted [OF assms] step_defs Let_def)

text \<open>
  C3 (amended). A Hello that passes both checks sets the node identifier to field 5 when
  the payload has exactly 6 fields, whatever the identifier was before, and leaves it as
  it was for every other number of fields.
\<close>

theorem recv_Hello_node_id:
  assumes "2 \<le> length data"
    and "idec E (data ! 0) = Inr (PROTOCOL_VERSION E)"
    and "idec E (data ! 1) = Inr (NETWORK_ID E)"
  shows "node_id (snd (recv_Hello E data s)) = (if length data = 6 then data ! 5 else node_id s)"
  using assms by (rule node_id_after_Hello)

theorem recv_Hello_node_id_witness:
  "node_id (snd (recv_Hello sample_env hello_A sample_peer)) = Str ''A''
   \<and> node_id (snd (recv_Hello sample_env (take 5 hello_A) sample_peer)) = Str []"
proof -
  have t: "2 \<le> length (take 5 hello_A)"
    "idec sample_env (take 5 hello_A ! 0) = Inr (PROTOCOL_VERSION sample_env)"
    "idec sample_env (take 5 hello_A ! 1) = Inr (NETWORK_ID sample_env)"
    by (simp_all add: hello_A_def sample_env_simps big_endian_to_int_Str)
  show ?thesis
    using recv_Hello_node_id [OF hello_ok(1-3), of sample_peer]
      recv_Hello_node_id [OF t, of sample_peer]
    by (simp add: hello_fields sample_peer_simps)
qed

text \<open>
  C3 as stated fails: a second valid Hello with 6 fields replaces the node identifier
  that the first one set.
\<close>

theorem node_id_overwritten:
  "node_id (snd (recv_Hello sample_env hello_A sample_peer)) = Str ''A''
   \<and> node_id (snd (recv_Hello sample_env hello_B
        (snd (recv_Hello sample_env hello_A sample_peer)))) = Str ''B''"
  by (simp add: node_id_after_Hello [OF hello_ok(1-3)] node_id_after_Hello [OF hello_ok(4-6)]
      hello_fields)

text \<open>
  C1. Evaluation at a Hello with protocol version 8 (expected 7) and at a Hello with
  network identifier 1 (expected 0): each returns normally, queues one packet and leaves
  \<open>hello_received\<close> false, but the packet is \<open>dump_Disconnect()\<close>, encoded without the
  reason the handler passed to \<open>send_Disconnect\<close>.
\<close>

theorem recv_Hello_mismatch_reason_dropped:
  "recv_Hello sample_env [Str [CHR 0x08], Str []] sample_peer =
     (Inr (), send_Disconnect sample_env None sample_peer)
   \<and> recv_Hello sample_env [Str [CHR 0x07], Str [CHR 0x01]] sample_peer =
     (Inr (), send_Disconnect sample_env None sample_peer)
   \<and> response_queue (send_Disconnect sample_env None sample_peer) = [''<Disconnect>'']
   \<and> hello_received (send_Disconnect sample_env None sample_peer) = False
   \<and> dump_Disconnect sample_env (Some ''Incompatible network protocols'') \<noteq> ''<Disconnect>''
   \<and> dump_Disconnect sample_env (Some ''Wrong genesis block'') \<noteq> ''<Disconnect>''"
  by (simp add: recv_Hello_def getitem_def sample_env_simps big_endian_to_int_Str
      step_defs sample_peer_simps)

subsection \<open>Disconnect\<close>

text \<open>
  C7. \<open>send_Disconnect\<close> performs three effects, in this order: it puts the Disconnect
  packet on the outbound queue, sleeps 2 seconds, and sends the signal
  \<open>disconnect_requested\<close>. The signal is the last of the three, so it never comes before
  the packet is on the queue.
\<close>

theorem send_Disconnect_order:
  "trace (send_Disconnect E reason s) =
     trace s @ [QueuePut (dump_Disconnect E None), Sleep 2000, Signal Disconnect_requested]
   \<and> response_queue (send_Disconnect E reason s) = response_queue s @ [dump_Disconnect E None]"
  by (simp add: step_defs)

subsection \<open>Dispatch of one packet\<close>

text \<open>
  C6. Evaluation at a buffer the codec rejects: the failure is logged, one packet is
  queued, the call returns normally and the peer is not stopped, but the packet is
  \<open>dump_Disconnect()\<close>, encoded without the reason \<open>Bad protocol\<close>.
\<close>

theorem recv_packet_bad_protocol_reason_dropped:
  "recv_packet sample_env (Str ''#'') sample_peer =
     Some (Inr (), send_Disconnect sample_env None (emit (Log Warn DecodeFailed) sample_peer))
   \<and> response_queue (send_Disconnect sample_env None (emit (Log Warn DecodeFailed) sample_peer))
       = [''<Disconnect>'']
   \<and> trace (send_Disconnect sample_env None (emit (Log Warn DecodeFailed) sample_peer))
       = [Log Warn DecodeFailed, QueuePut ''<Disconnect>'', Sleep 2000, Signal Disconnect_requested]
   \<and> stopped (send_Disconnect sample_env None (emit (Log Warn DecodeFailed) sample_peer)) = False
   \<and> dump_Disconnect sample_env (Some ''Bad protocol'') \<noteq> ''<Disconnect>''"
  by (simp add: recv_packet.simps sample_env_simps sample_load_cmd_def
      step_defs sample_peer_simps stopped_def)

subsection \<open>Peers\<close>

lemma ip_parts_bytes:
  "list_all ip_byte bs \<Longrightarrow> ip_parts bs = Inr (map (\<lambda>b. str_nat (byte_value b)) bs)"
proof (induction bs)
  case Nil
  then show ?case by simp
next
  case (Cons b bs)
  from Cons.prems have "ord_or_zero b = Inr (byte_value b)"
    by (auto simp: ip_byte_def ord_or_zero_def byte_value_def split: rlp.splits list.splits)
  with Cons show ?case by simp
qed

lemma recv_Peers_entries:
  assumes "\<forall>(bs, port0, p, pid) \<in> set entries. list_all ip_byte bs \<and> idec E port0 = Inr p"
  shows "recv_Peers E (map peers_entry entries) s =
           (Inr (), s\<lparr>trace := trace s @ concat (map peers_events entries)\<rparr>)"
  using assms
proof (induction entries arbitrary: s)
  case Nil
  then show ?case by simp
next
  case (Cons x xs)
  obtain bs port0 p pid where x: "x = (bs, port0, p, pid)" by (cases x) auto
  from Cons.prems x have ok: "list_all ip_byte bs" "idec E port0 = Inr p" by auto
  from Cons.prems have rest: "\<forall>(bs, port0, p, pid) \<in> set xs. list_all ip_byte bs \<and> idec E port0 = Inr p"
    by auto
  show ?case
    by (simp add: x peers_entry_def peers_events_def unpack3_def ip_parts_bytes [OF ok(1)] ok(2)
        Cons.IH [OF rest, unfolded peers_entry_def] dotted_def emit_def)
qed

lemma str_nat_examples:
  "str_nat 127 = ''127''" "str_nat 0 = ''0''" "str_nat 1 = ''1''" "str_nat (Suc 0) = ''1''"
  by code_simp+

text \<open>
  C9. For a Peers payload whose entries are lists of an ip (a list of byte items), a port
  that \<open>idec\<close> decodes and a node id, \<open>recv_Peers\<close> returns normally and appends, entry
  by entry and in order, one log line and exactly one \<open>new_peer_received\<close> signal carrying
  the dotted ip, the decoded port and the node id. The witness is the entry
  (127.0.0.1, 30303, abc) of the spec.
\<close>

theorem recv_Peers_notifies:
  assumes "\<forall>(bs, port0, p, pid) \<in> set entries. list_all ip_byte bs \<and> idec E port0 = Inr p"
  shows "recv_Peers E (map peers_entry entries) s =
           (Inr (), s\<lparr>trace := trace s @ concat (map peers_events entries)\<rparr>)"
  using assms by (rule recv_Peers_entries)

theorem recv_Peers_notifies_witness:
  "recv_Peers sample_env
     [Lst [Lst [Str [CHR 0x7F], Str [], Str [CHR 0x00], Str [CHR 0x01]],
           Str [CHR 0x76, CHR 0x5F], Str ''abc'']]
     sample_peer =
   (Inr (), sample_peer\<lparr>trace :=
      [Log Debug (ReceivedPeerAddress ''127.0.0.1'' 30303),
       Signal (New_peer_received ''127.0.0.1'' 30303 (Str ''abc''))]\<rparr>)"
proof -
  let ?bs = "[Str [CHR 0x7F], Str [], Str [CHR 0x00], Str [CHR 0x01]]"
  let ?port = "Str [CHR 0x76, CHR 0x5F]"
  let ?entries = "[(?bs, ?port, 30303::int, Str ''abc'')]"
  have h: "\<forall>(bs, port0, p, pid) \<in> set ?entries.
             list_all ip_byte bs \<and> idec sample_env port0 = Inr p"
    by (simp add: ip_byte_def sample_env_simps big_endian_to_int_Str)
  have d: "dotted ?bs = ''127.0.0.1''"
    by (simp add: dotted_def byte_value_def str_nat_examples)
  have e: "map peers_entry ?entries = [Lst [Lst ?bs, ?port, Str ''abc'']]"
    by (simp add: peers_entry_def)
  have ev: "trace sample_peer @ concat (map peers_events ?entries) =
      [Log Debug (ReceivedPeerAddress ''127.0.0.1'' 30303),
       Signal (New_peer_received ''127.0.0.1'' 30303 (Str ''abc''))]"
    by (simp add: peers_events_def d sample_peer_simps)
  have "recv_Peers sample_env (map peers_entry ?entries) sample_peer =
      (Inr (), sample_peer\<lparr>trace := trace sample_peer @ concat (map peers_events ?entries)\<rparr>)"
    by (rule recv_Peers_notifies [OF h])
  then show ?thesis by (simp only: e ev)
qed

subsection \<open>The send step\<close>

lemma stop_simps:
  "is_stopped (stop s) = True"
  "response_queue (stop s) = response_queue s"
  "trace (stop s) = trace s @ stop_effects s"
  "send_script (the_connection (stop s)) = send_script (the_connection s)"
  "recv_script (the_connection (stop s)) = recv_script (the_connection s)"
  "closed (the_connection (stop s)) = True"
  by (simp_all add: stop_def stop_effects_def emit_def sock_shutdown_def sock_close_def Let_def)


lemma stop_effects_emit [simp]: "stop_effects (emit e s) = stop_effects s"
  by (simp add: stop_effects_def emit_def)



lemma send_loop_Nil: "send_loop [] s = Some ([], s)"
  by (simp add: send_loop.simps)

lemma send_loop_stopped:
  assumes "packet \<noteq> []" and "stopped s"
  shows "send_loop packet s =
    Some (packet, stop (emit (Log Debug SendPacketFailed) (emit (Signal (Packet_sending packet)) s)))"
  using assms by (simp add: send_loop.simps connection_def stopped_def emit_def)

lemma send_loop_raises:
  assumes "packet \<noteq> []" and "\<not> stopped s"
    and "sock_send (the_connection s) packet = Some (Inl e, c')"
  shows "send_loop packet s =
    Some (packet, stop (emit (Log Debug SendPacketFailed) (emit (SockSend packet)
            ((emit (Signal (Packet_sending packet)) s)\<lparr>the_connection := c'\<rparr>))))"
  using assms by (simp add: send_loop.simps connection_def stopped_def emit_def)





lemma process_send_unfold:
  "process_send s =
     (case send_loop (head_packet s)
             (emit QueueGet (s\<lparr>response_queue := drop 1 (response_queue s)\<rparr>)) of
        None \<Rightarrow> None
      | Some (rest, s2) \<Rightarrow> Some (length rest, s2))"
proof (cases "response_queue s")
  case Nil
  have "s\<lparr>response_queue := []\<rparr> = s\<lparr>response_queue := response_queue s\<rparr>"
    by (simp only: Nil)
  then have same: "s\<lparr>response_queue := []\<rparr> = s" by simp
  show ?thesis
    by (simp add: process_send_def head_packet_def Nil send_loop_Nil same)
next
  case (Cons p q)
  then show ?thesis
    by (auto simp: process_send_def head_packet_def split: option.splits)
qed










subsection \<open>Transport failures\<close>

lemma sock_send_flags:
  assumes "sock_send c packet = Some (r, c')"
  shows "closed c' = closed c" and "shutdown_raises c' = shutdown_raises c"
    and "recv_script c' = recv_script c"
  using assms
  by (auto simp: sock_send_def split: if_splits list.splits send_outcome.splits)

lemma sock_recv_flags:
  assumes "sock_recv c n = Some (r, c')"
  shows "closed c' = closed c" and "shutdown_raises c' = shutdown_raises c"
    and "send_script c' = send_script c"
  using assms
  by (auto simp: sock_recv_def split: if_splits list.splits recv_outcome.splits)

lemma send_loop_write_fails:
  assumes "packet \<noteq> []" and "write_fails s packet"
  shows "\<exists>s'. send_loop packet s = Some (packet, s') \<and> stopped s'
     \<and> response_queue s' = response_queue s
     \<and> trace s' = trace s @ Signal (Packet_sending packet) #
          (if stopped s then [] else [SockSend packet]) @
          Log Debug SendPacketFailed # stop_effects s"
proof (cases "stopped s")
  case True
  show ?thesis
    using True
    by (simp add: send_loop_stopped [OF assms(1) True] stop_simps stopped_def emit_def
        stop_effects_def)
next
  case False
  with assms(2) obtain e c' where f: "sock_send (the_connection s) packet = Some (Inl e, c')"
    by (auto simp: write_fails_def connection_def split: option.splits sum.splits)
  from send_loop_raises [OF assms(1) False f] False show ?thesis
    by (simp add: stop_simps stopped_def emit_def stop_effects_def sock_send_flags [OF f])
qed

lemma recv_loop_empty_chunk:
  "try_recv s = Some ([], s1) \<Longrightarrow> recv_loop buf s = Some (buf, s1)"
  by (subst recv_loop.simps) simp

lemma recv_loop_chunk:
  "try_recv s = Some (chunk, s1) \<Longrightarrow> chunk \<noteq> [] \<Longrightarrow>
     recv_loop buf s = recv_loop (buf @ chunk) s1"
  by (subst recv_loop.simps) simp

lemma recv_loop_read_fails:
  assumes "read_fails s"
  shows "\<exists>s'. recv_loop buf s = Some (buf, s') \<and> is_stopped s' = is_stopped s
     \<and> response_queue s' = response_queue s
     \<and> trace s' = trace s @ (if stopped s then [] else [SockRecv 2048])"
proof (cases "stopped s")
  case True
  then have "try_recv s = Some ([], s)"
    by (simp add: try_recv_def connection_def)
  from recv_loop_empty_chunk [OF this] True show ?thesis by simp
next
  case False
  with assms obtain e c' where f: "sock_recv (the_connection s) 2048 = Some (Inl e, c')"
    by (auto simp: read_fails_def connection_def split: option.splits sum.splits)
  with False have "try_recv s = Some ([], emit (SockRecv 2048) (s\<lparr>the_connection := c'\<rparr>))"
    by (simp add: try_recv_def connection_def)
  from recv_loop_empty_chunk [OF this] False show ?thesis by (simp add: emit_def)
qed

text \<open>
  C2 (amended). A write that raises, at any pass of the send loop, ends the loop at once:
  the failure is logged, \<open>stop()\<close> runs, the packet is left as it was and nothing is
  written again. A read that raises is not fatal: it ends the read loop with the bytes
  read so far, is not logged, and does not stop the peer.
\<close>

theorem write_failure_stops_read_failure_does_not:
  "(packet \<noteq> [] \<and> write_fails s packet \<longrightarrow>
      (\<exists>s'. send_loop packet s = Some (packet, s') \<and> stopped s'
         \<and> response_queue s' = response_queue s
         \<and> trace s' = trace s @ Signal (Packet_sending packet) #
              (if stopped s then [] else [SockSend packet]) @
              Log Debug SendPacketFailed # stop_effects s))
   \<and> (read_fails t \<longrightarrow>
      (\<exists>t'. recv_loop buf t = Some (buf, t') \<and> is_stopped t' = is_stopped t
         \<and> response_queue t' = response_queue t
         \<and> trace t' = trace t @ (if stopped t then [] else [SockRecv 2048])))"
  using send_loop_write_fails [of packet s] recv_loop_read_fails [of t buf] by blast

lemma sample_fails:
  "write_fails (sample_sender [SendRaises] []) ''ab''"
  "read_fails (sample_receiver [RecvRaises])"
  "stopped (sample_sender [SendRaises] []) = False"
  "stopped (sample_receiver [RecvRaises]) = False"
  "trace (sample_sender [SendRaises] []) = []"
  "trace (sample_receiver [RecvRaises]) = []"
  "stop_effects (sample_sender [SendRaises] []) = [SockShutdown, SockClose]"
  by (simp_all add: write_fails_def read_fails_def sample_sender_def sample_receiver_def
      connection_def stopped_def sock_send_def sock_recv_def sample_peer_simps sample_socket_def
      stop_effects_def)

theorem write_failure_stops_read_failure_does_not_witness:
  "write_fails (sample_sender [SendRaises] []) ''ab''
   \<and> (\<exists>s'. send_loop ''ab'' (sample_sender [SendRaises] []) = Some (''ab'', s') \<and> stopped s'
         \<and> trace s' = [Signal (Packet_sending ''ab''), SockSend ''ab'',
                        Log Debug SendPacketFailed, SockShutdown, SockClose])
   \<and> read_fails (sample_receiver [RecvRaises])
   \<and> (\<exists>t'. recv_loop [] (sample_receiver [RecvRaises]) = Some ([], t') \<and> is_stopped t' = False
         \<and> trace t' = [SockRecv 2048])"
  using write_failure_stops_read_failure_does_not
          [of "''ab''" "sample_sender [SendRaises] []" "sample_receiver [RecvRaises]" "[]"]
  by (auto simp add: sample_fails stopped_def [symmetric])

text \<open>
  C2 as stated fails on the receive path: after a read that raises, the receive step
  returns 0, the peer is not stopped and nothing is logged.
\<close>

theorem recv_failure_not_fatal:
  "map_option (\<lambda>r. (fst r, stopped (snd r), trace (snd r)))
     (process_recv sample_env (sample_receiver [RecvRaises])) =
   Some (Inr 0, False, [SockRecv 2048])"
  by code_simp

subsection \<open>After stop\<close>

lemma recv_loop_stopped: "stopped s \<Longrightarrow> recv_loop buf s = Some (buf, s)"
  by (rule recv_loop_empty_chunk) (simp add: try_recv_def connection_def)

lemma process_recv_stopped: "stopped s \<Longrightarrow> process_recv E s = Some (Inr 0, s)"
  by (simp add: process_recv_def recv_loop_stopped)

lemma process_send_stopped:
  assumes "stopped s"
  shows "\<exists>s'. process_send s = Some (length (head_packet s), s')
     \<and> trace s' = trace s @ QueueGet #
         (if head_packet s = [] then []
          else [Signal (Packet_sending (head_packet s)), Log Debug SendPacketFailed]
               @ stop_effects s)
     \<and> send_script (the_connection s') = send_script (the_connection s)
     \<and> recv_script (the_connection s') = recv_script (the_connection s)"
proof -
  let ?s1 = "emit QueueGet (s\<lparr>response_queue := drop 1 (response_queue s)\<rparr>)"
  have st: "stopped ?s1" using assms by (simp add: stopped_def emit_def)
  show ?thesis
  proof (cases "head_packet s = []")
    case True
    then show ?thesis by (simp add: process_send_unfold send_loop_Nil emit_def)
  next
    case False
    have sl: "send_loop (head_packet s) ?s1 =
        Some (head_packet s, stop (emit (Log Debug SendPacketFailed)
                (emit (Signal (Packet_sending (head_packet s))) ?s1)))"
      by (rule send_loop_stopped [OF False st])
    show ?thesis
      unfolding process_send_unfold sl
      by (simp add: False stop_simps emit_def stop_effects_def)
  qed
qed

text \<open>
  C10 (amended). After \<open>stop()\<close> the flag is set and \<open>connection()\<close> raises \<open>IOError\<close>. A
  receive step on a stopped peer reads nothing and changes nothing. A send step on a
  stopped peer writes nothing: the scripts of the socket are untouched; but for a
  non-empty packet the failure branch logs and calls \<open>stop()\<close> again, which calls
  \<open>shutdown\<close> and \<open>close\<close> on the socket itself.
\<close>

theorem after_stop:
  "stopped (stop s)
   \<and> (stopped s \<longrightarrow>
        connection s = Inl IOError
      \<and> process_recv E s = Some (Inr 0, s)
      \<and> (\<exists>s'. process_send s = Some (length (head_packet s), s')
           \<and> trace s' = trace s @ QueueGet #
               (if head_packet s = [] then []
                else [Signal (Packet_sending (head_packet s)), Log Debug SendPacketFailed]
                     @ stop_effects s)
           \<and> send_script (the_connection s') = send_script (the_connection s)
           \<and> recv_script (the_connection s') = recv_script (the_connection s)))"
  using process_send_stopped [of s] process_recv_stopped [of s E]
  by (simp add: stopped_def stop_simps connection_def)

lemma sample_stopped_sender:
  "stopped (stop (sample_sender [] [''ab'']))"
  "head_packet (stop (sample_sender [] [''ab''])) = ''ab''"
  "trace (stop (sample_sender [] [''ab''])) = [SockShutdown, SockClose]"
  "stop_effects (stop (sample_sender [] [''ab''])) =
     [SockShutdown, Log Debug ShuttingDownFailed, SockClose]"
  by (simp_all add: stopped_def stop_simps head_packet_def stop_effects_def sample_sender_def
      sample_peer_simps sample_socket_def)

theorem after_stop_witness:
  "stopped (stop (sample_sender [] [''ab'']))
   \<and> connection (stop (sample_sender [] [''ab''])) = Inl IOError
   \<and> process_recv sample_env (stop (sample_sender [] [''ab''])) =
       Some (Inr 0, stop (sample_sender [] [''ab'']))
   \<and> (\<exists>s'. process_send (stop (sample_sender [] [''ab''])) = Some (2, s')
         \<and> trace s' = [SockShutdown, SockClose, QueueGet, Signal (Packet_sending ''ab''),
                        Log Debug SendPacketFailed,
                        SockShutdown, Log Debug ShuttingDownFailed, SockClose])"
  using after_stop [of "stop (sample_sender [] [''ab''])" sample_env]
  by (auto simp add: sample_stopped_sender numeral_2_eq_2)

text \<open>
  C10 as stated fails: a send step after \<open>stop()\<close>, with a packet queued, calls \<open>shutdown\<close>
  and \<open>close\<close> on the closed socket.
\<close>

theorem stop_called_again_after_stop:
  "stopped (stop (sample_sender [] [''ab'']))
   \<and> map_option (\<lambda>r. (fst r, trace (snd r)))
       (process_send (stop (sample_sender [] [''ab'']))) =
     Some (2, [SockShutdown, SockClose, QueueGet, Signal (Packet_sending ''ab''),
               Log Debug SendPacketFailed,
               SockShutdown, Log Debug ShuttingDownFailed, SockClose])"
  by code_simp

subsection \<open>Exceptions from dispatch\<close>

text \<open>
  C8. Evaluation at decodable packets whose payload the handler does not guard against.
  A Hello with no fields raises \<open>IndexError\<close> at \<open>data[0]\<close>, and the exception leaves
  \<open>_recv_packet\<close>, \<open>_process_recv\<close> and \<open>loop_body\<close>: the \<open>try\<close> of \<open>_recv_packet\<close> wraps
  the decoding only. In the same way a Disconnect whose reason code is not in the table
  raises \<open>KeyError\<close>, and a Peers entry whose ip is a string fails the assertion of the
  handler.
\<close>

theorem dispatch_raises_on_malformed_payload:
  "map_option fst (recv_packet sample_env (Str ''H'') sample_peer) = Some (Inl IndexError)
   \<and> map_option fst (loop_body sample_env (sample_receiver [RecvChunk ''H'', RecvRaises]))
       = Some (Inl IndexError)
   \<and> fst (recv_Disconnect sample_env [Str [CHR 0x09]] sample_peer) = Inl KeyError
   \<and> map_option fst (recv_packet sample_env (Str ''Qabc'') sample_peer)
       = Some (Inl AssertionError)"
  by code_simp

end
